theory Spec2Isabelle
  imports Complex_Main "HOL-Library.Word" "HOL-Library.Sublist"
begin

section \<open>The product-creation form (src/components/create-product-form.tsx)\<close>

subsection \<open>JavaScript numbers and JSON\<close>

text \<open>
  A JavaScript number as far as the form looks at it: not-a-number, the two infinities, or
  a finite value. The component only tests \<open>isNaN\<close>, compares with \<open>0\<close> and serialises.
\<close>

datatype number = NaN | Infinity | NegInfinity | Finite rat

fun isNaN :: "number \<Rightarrow> bool" where
  "isNaN NaN = True"
| "isNaN _ = False"

text \<open>The relational operators of JavaScript: every comparison with \<open>NaN\<close> is false.\<close>

fun lt :: "number \<Rightarrow> number \<Rightarrow> bool" where
  "lt NaN _ = False"
| "lt _ NaN = False"
| "lt (Finite p) (Finite q) = (p < q)"
| "lt NegInfinity NegInfinity = False"
| "lt NegInfinity _ = True"
| "lt _ NegInfinity = False"
| "lt Infinity _ = False"
| "lt _ Infinity = True"

definition gt :: "number \<Rightarrow> number \<Rightarrow> bool" where
  "gt x y = lt y x"

definition le :: "number \<Rightarrow> number \<Rightarrow> bool" where
  "le x y \<longleftrightarrow> \<not> isNaN x \<and> \<not> isNaN y \<and> (lt x y \<or> x = y)"

definition ge :: "number \<Rightarrow> number \<Rightarrow> bool" where
  "ge x y = le y x"

text \<open>Values of object literals, and the JSON documents that \<open>JSON.stringify\<close> writes.\<close>

datatype jsval =
    JSString string
  | JSNumber number
  | JSArray "jsval list"
  | JSObject "(string \<times> jsval) list"

datatype json =
    JNull
  | JNumber rat
  | JString string
  | JArray "json list"
  | JObject "(string \<times> json) list"

text \<open>\<open>JSON.stringify\<close> writes a number that is not finite as \<open>null\<close>.\<close>

fun JSON_stringify :: "jsval \<Rightarrow> json" where
  "JSON_stringify (JSString s) = JString s"
| "JSON_stringify (JSNumber n) = (case n of Finite q \<Rightarrow> JNumber q | _ \<Rightarrow> JNull)"
| "JSON_stringify (JSArray vs) = JArray (map JSON_stringify vs)"
| "JSON_stringify (JSObject kvs) = JObject (map (\<lambda>(k, v). (k, JSON_stringify v)) kvs)"

subsection \<open>Form values and the validation schema\<close>

text \<open>A browser \<open>File\<close>: the schema reads its \<open>size\<close> (in bytes) and its MIME \<open>type\<close>.\<close>

record File =
  name :: string
  size :: nat
  type :: string

text \<open>
  One element of \<open>images\<close>, the object \<open>{file?: File}\<close>: its field is named \<open>file_value\<close>
  here, and \<open>None\<close> is \<open>undefined\<close>.
\<close>

record image =
  file_value :: "File option"

record ProductFormValues =
  name :: string
  categorySlug :: string
  price :: string
  images :: "image list"
  variants :: "string list"
  description :: string
  specifications :: "string list"
  stock :: string

definition MAX_FILE_SIZE :: nat where
  "MAX_FILE_SIZE = 5 * 1024 * 1024"

definition ACCEPTED_IMAGE_TYPES :: "string list" where
  "ACCEPTED_IMAGE_TYPES = [''image/jpeg'', ''image/png'', ''image/webp'']"

text \<open>
  The schema, field by field, in the order of the source. The conversion \<open>Number\<close> of the
  JavaScript runtime is a parameter; \<open>length\<close> counts the characters of a string.
\<close>

definition schema_name :: "string \<Rightarrow> bool" where
  "schema_name val \<longleftrightarrow> 4 \<le> length val"

definition schema_categorySlug :: "string \<Rightarrow> bool" where
  "schema_categorySlug val \<longleftrightarrow> True"

definition schema_price :: "(string \<Rightarrow> number) \<Rightarrow> string \<Rightarrow> bool" where
  "schema_price Number val \<longleftrightarrow> \<not> isNaN (Number val) \<and> gt (Number val) (Finite 0)"

definition schema_file :: "File \<Rightarrow> bool" where
  "schema_file f \<longleftrightarrow> File.size f \<le> MAX_FILE_SIZE \<and> File.type f \<in> set ACCEPTED_IMAGE_TYPES"

definition schema_image :: "image \<Rightarrow> bool" where
  "schema_image obj = (case file_value obj of None \<Rightarrow> True | Some f \<Rightarrow> schema_file f)"

definition schema_images :: "image list \<Rightarrow> bool" where
  "schema_images val \<longleftrightarrow> list_all schema_image val \<and> length val = 5"

definition schema_variants :: "string list \<Rightarrow> bool" where
  "schema_variants val \<longleftrightarrow> length val = 5"

definition schema_description :: "string \<Rightarrow> bool" where
  "schema_description val \<longleftrightarrow> 10 \<le> length val"

definition schema_specifications :: "string list \<Rightarrow> bool" where
  "schema_specifications val \<longleftrightarrow> length val = 6"

definition schema_stock :: "(string \<Rightarrow> number) \<Rightarrow> string \<Rightarrow> bool" where
  "schema_stock Number val \<longleftrightarrow> \<not> isNaN (Number val) \<and> ge (Number val) (Finite 0)"

definition productFormSchema :: "(string \<Rightarrow> number) \<Rightarrow> ProductFormValues \<Rightarrow> bool" where
  "productFormSchema Number data \<longleftrightarrow>
     schema_name (name data) \<and>
     schema_categorySlug (categorySlug data) \<and>
     schema_price Number (price data) \<and>
     schema_images (images data) \<and>
     schema_variants (variants data) \<and>
     schema_description (description data) \<and>
     schema_specifications (specifications data) \<and>
     schema_stock Number (stock data)"

subsection \<open>Requests, responses and the state of the component\<close>

text \<open>
  A request as \<open>fetch\<close> takes it: the address and the options \<open>method\<close> (the field
  \<open>http_method\<close> here), \<open>headers\<close> and \<open>body\<close>; the body is form data or a text, and the
  only text the component sends is a JSON document.
\<close>

datatype body_init = FormData "(string \<times> File) list" | Text json

record request =
  url :: string
  http_method :: string
  headers :: "(string \<times> string) list"
  body :: body_init

text \<open>
  What \<open>onSubmit\<close> reads of ImgBB's reply: \<open>result.success\<close> and \<open>result.data.display_url\<close>,
  a string whenever the reply has a \<open>data\<close> object (\<open>display_url = None\<close>: it has none, and
  reading its \<open>display_url\<close> throws).
  What it reads of a response: \<open>ok\<close>, and the outcome of \<open>response.json()\<close> (\<open>None\<close>: the
  promise rejects). A \<open>fetch\<close> promise is rejected or fulfilled with a response.
\<close>

datatype result = Result (success: bool) (display_url: "string option")

record response =
  ok :: bool
  json :: "result option"

datatype settled = Rejected | Fulfilled response

datatype error = Error string | NetworkError | SyntaxError | TypeError

datatype event = Sent request | Settled settled

datatype toast_variant = default | destructive

datatype toast = Toast string string toast_variant

text \<open>
  The runtime the component runs on: the conversions from strings to numbers, \<open>fetch\<close>
  (it answers a request in a state of the outside world and changes that state) and the
  environment variable with the key of the image host.
\<close>

record 'w runtime =
  Number :: "string \<Rightarrow> number"
  parseFloat :: "string \<Rightarrow> number"
  parseInt :: "string \<Rightarrow> nat \<Rightarrow> number"
  fetch :: "request \<Rightarrow> 'w \<Rightarrow> settled \<times> 'w"
  NEXT_PUBLIC_IMGBB_API :: string

text \<open>
  The state \<open>onSubmit\<close> works on: the loading flag, the toasts shown and the errors logged
  so far, the values held by the form, the requests sent and settled so far in the order
  they happened, and the outside world.
\<close>

record 'w state =
  isLoading :: bool
  toasts :: "toast list"
  console :: "error list"
  form :: ProductFormValues
  trace :: "event list"
  world :: 'w

definition defaultValues :: ProductFormValues where
  "defaultValues =
     \<lparr>name = [], categorySlug = [], price = [],
      images = replicate 5 \<lparr>file_value = None\<rparr>,
      variants = replicate 5 [],
      description = [],
      specifications = replicate 6 [],
      stock = []\<rparr>"

subsection \<open>onSubmit\<close>

text \<open>\<open>await fetch(...)\<close>: the request is sent, and the caller goes on once it is settled.\<close>

definition await_fetch :: "'w runtime \<Rightarrow> request \<Rightarrow> 'w state \<Rightarrow> settled \<times> 'w state" where
  "await_fetch rt req s =
     (case fetch rt req (world s) of
        (res, w) \<Rightarrow> (res, s\<lparr>trace := trace s @ [Sent req, Settled res], world := w\<rparr>))"

definition uploadRequest :: "'w runtime \<Rightarrow> File \<Rightarrow> request" where
  "uploadRequest rt f =
     \<lparr>url = ''https://api.imgbb.com/1/upload?key='' @ NEXT_PUBLIC_IMGBB_API rt,
      http_method = ''POST'',
      headers = [],
      body = FormData [(''image'', f)]\<rparr>"

text \<open>The loop over \<open>data.images\<close>; \<open>uploadedImages\<close> is the accumulator.\<close>

fun uploadImages ::
  "'w runtime \<Rightarrow> image list \<Rightarrow> string list \<Rightarrow> 'w state \<Rightarrow> (error + string list) \<times> 'w state"
where
  "uploadImages rt [] uploadedImages s = (Inr uploadedImages, s)"
| "uploadImages rt (imageObj # rest) uploadedImages s =
     (case file_value imageObj of
        None \<Rightarrow> uploadImages rt rest uploadedImages s
      | Some f \<Rightarrow>
          (case await_fetch rt (uploadRequest rt f) s of
             (Rejected, s') \<Rightarrow> (Inl NetworkError, s')
           | (Fulfilled response, s') \<Rightarrow>
               (case json response of
                  None \<Rightarrow> (Inl SyntaxError, s')
                | Some result \<Rightarrow>
                    if \<not> ok response \<or> \<not> success result
                    then (Inl (Error ''Failed to upload image to ImgBB''), s')
                    else (case display_url result of
                            None \<Rightarrow> (Inl TypeError, s')
                          | Some u \<Rightarrow> uploadImages rt rest (uploadedImages @ [u]) s'))))"

definition productData ::
  "'w runtime \<Rightarrow> string \<Rightarrow> ProductFormValues \<Rightarrow> string list \<Rightarrow> jsval" where
  "productData rt shopName data uploadedImages =
     JSObject
      [(''name'', JSString (name data)),
       (''images'', JSArray (map JSString uploadedImages)),
       (''variants'', JSArray (map JSString (variants data))),
       (''price'', JSNumber (parseFloat rt (price data))),
       (''stock'', JSNumber (parseInt rt (stock data) 10)),
       (''description'', JSString (description data)),
       (''specifications'', JSArray (map JSString (specifications data))),
       (''categorySlug'', JSString (categorySlug data)),
       (''shopName'', JSString shopName)]"

definition productRequest ::
  "'w runtime \<Rightarrow> string \<Rightarrow> string \<Rightarrow> ProductFormValues \<Rightarrow> string list \<Rightarrow> request" where
  "productRequest rt role shopName data uploadedImages =
     \<lparr>url = ''/api/products'',
      http_method = ''POST'',
      headers = [(''Content-Type'', ''application/json''), (''role'', role)],
      body = Text (JSON_stringify (productData rt shopName data uploadedImages))\<rparr>"

definition createdToast :: "ProductFormValues \<Rightarrow> toast" where
  \<open>createdToast data =
     Toast ''Product Created''
       (''Product "'' @ name data @ ''" has been successfully created.'') default\<close>

definition errorToast :: toast where
  "errorToast = Toast ''Error'' ''There was a problem creating the product.'' destructive"

text \<open>The body of the \<open>try\<close> block: \<open>Inl\<close> is the error thrown out of it.\<close>

definition try_block ::
  "'w runtime \<Rightarrow> string \<Rightarrow> string \<Rightarrow> ProductFormValues \<Rightarrow> 'w state \<Rightarrow> (error + unit) \<times> 'w state"
where
  "try_block rt role shopName data s =
     (case uploadImages rt (images data) [] s of
        (Inl e, s') \<Rightarrow> (Inl e, s')
      | (Inr uploadedImages, s') \<Rightarrow>
          (case await_fetch rt (productRequest rt role shopName data uploadedImages) s' of
             (Rejected, s'') \<Rightarrow> (Inl NetworkError, s'')
           | (Fulfilled productResponse, s'') \<Rightarrow>
               if \<not> ok productResponse
               then (Inl (Error ''Failed to create product''), s'')
               else (Inr (),
                     s''\<lparr>toasts := toasts s'' @ [createdToast data], form := defaultValues\<rparr>)))"

definition onSubmit ::
  "'w runtime \<Rightarrow> string \<Rightarrow> string \<Rightarrow> ProductFormValues \<Rightarrow> 'w state \<Rightarrow> 'w state" where
  "onSubmit rt role shopName data s =
     (case try_block rt role shopName data (s\<lparr>isLoading := True\<rparr>) of
        (Inr _, s') \<Rightarrow> s'\<lparr>isLoading := False\<rparr>
      | (Inl e, s') \<Rightarrow>
          s'\<lparr>console := console s' @ [e],
             toasts := toasts s' @ [errorToast],
             isLoading := False\<rparr>)"

text \<open>
  \<open>form.handleSubmit(onSubmit)\<close> with the schema as resolver: the handler is called with the
  values of the form when they pass the schema, and is not called otherwise.
\<close>

definition handleSubmit :: "'w runtime \<Rightarrow> string \<Rightarrow> string \<Rightarrow> 'w state \<Rightarrow> 'w state" where
  "handleSubmit rt role shopName s =
     (if productFormSchema (Number rt) (form s)
      then onSubmit rt role shopName (form s) s
      else s)"

subsection \<open>Reading a run off the trace\<close>

text \<open>The events one call of \<open>onSubmit\<close> adds to the trace.\<close>

definition run ::
  "'w runtime \<Rightarrow> string \<Rightarrow> string \<Rightarrow> ProductFormValues \<Rightarrow> 'w state \<Rightarrow> event list" where
  "run rt role shopName data s =
     drop (length (trace s)) (trace (onSubmit rt role shopName data s))"

text \<open>The requests of a trace, in the order they were sent.\<close>

fun requests :: "event list \<Rightarrow> request list" where
  "requests [] = []"
| "requests (Sent q # evs) = q # requests evs"
| "requests (Settled r # evs) = requests evs"

text \<open>Every request of the trace is settled before anything else happens.\<close>

fun awaited :: "event list \<Rightarrow> bool" where
  "awaited [] = True"
| "awaited (Sent q # Settled r # evs) = awaited evs"
| "awaited _ = False"

definition is_create :: "request \<Rightarrow> bool" where
  "is_create q \<longleftrightarrow> url q = ''/api/products'' \<and> http_method q = ''POST''"

text \<open>The files of the slots that hold one, in slot order.\<close>

definition files :: "image list \<Rightarrow> File list" where
  "files imgs = List.map_filter file_value imgs"

text \<open>
  An upload succeeds when the response is \<open>ok\<close>, its JSON says \<open>success\<close> and carries the
  address of the image; the product request succeeds when its response is \<open>ok\<close>.
\<close>

fun uploaded :: "settled \<Rightarrow> string option" where
  "uploaded Rejected = None"
| "uploaded (Fulfilled r) =
     (case json r of
        None \<Rightarrow> None
      | Some result \<Rightarrow> if ok r \<and> success result then display_url result else None)"

fun created :: "settled \<Rightarrow> bool" where
  "created Rejected = False"
| "created (Fulfilled r) = ok r"

text \<open>Some upload, or the product request, of the trace has failed.\<close>

fun upload_failed :: "event list \<Rightarrow> bool" where
  "upload_failed (Sent q # Settled r # evs) =
     ((\<not> is_create q \<and> uploaded r = None) \<or> upload_failed evs)"
| "upload_failed _ = False"

fun create_failed :: "event list \<Rightarrow> bool" where
  "create_failed (Sent q # Settled r # evs) =
     ((is_create q \<and> \<not> created r) \<or> create_failed evs)"
| "create_failed _ = False"

text \<open>
  The uploads of the trace that succeeded, in order: each request with the address that
  the image host returned for it.
\<close>

fun uploads :: "event list \<Rightarrow> (request \<times> string) list" where
  "uploads (Sent q # Settled r # evs) =
     (if is_create q then uploads evs
      else (case uploaded r of None \<Rightarrow> uploads evs | Some u \<Rightarrow> (q, u) # uploads evs))"
| "uploads _ = []"

definition uploaded_urls :: "event list \<Rightarrow> string list" where
  "uploaded_urls evs = map snd (uploads evs)"


subsection \<open>A runtime for running the model on examples\<close>

text \<open>
  A reader of decimal integer literals (digits, with an optional minus sign in front);
  every other string is read as \<open>NaN\<close>. The examples call it on such literals, where
  \<open>Number\<close>, \<open>parseFloat\<close> and \<open>parseInt\<close> of JavaScript give the same values, and on the
  empty string, which \<open>parseFloat\<close> and \<open>parseInt\<close> read as \<open>NaN\<close>.
\<close>

fun digits :: "string \<Rightarrow> nat \<Rightarrow> nat option" where
  "digits [] acc = Some acc"
| "digits (c # cs) acc =
     (if 48 \<le> (of_char c :: nat) \<and> (of_char c :: nat) \<le> 57
      then digits cs (10 * acc + (of_char c - 48))
      else None)"

definition decimal :: "string \<Rightarrow> number" where
  "decimal val =
     (case val of
        [] \<Rightarrow> NaN
      | c # cs \<Rightarrow>
          if c = CHR ''-'' \<and> cs \<noteq> []
          then (case digits cs 0 of None \<Rightarrow> NaN | Some n \<Rightarrow> Finite (- of_nat n))
          else (case digits val 0 of None \<Rightarrow> NaN | Some n \<Rightarrow> Finite (of_nat n)))"

text \<open>\<open>Number\<close> reads the empty string as \<open>0\<close>, and a decimal integer literal as its value.\<close>

definition example_Number :: "string \<Rightarrow> number" where
  "example_Number val = (if val = [] then Finite 0 else decimal val)"

text \<open>
  An image host that stores every file but the one named \<open>broken.png\<close>, and an API that
  accepts every product; the world counts the requests answered.
\<close>

definition example_fetch :: "request \<Rightarrow> nat \<Rightarrow> settled \<times> nat" where
  "example_fetch q w =
     (case body q of
        FormData [(k, f)] \<Rightarrow>
          if File.name f = ''broken.png''
          then (Fulfilled \<lparr>ok = False, json = Some (Result False None)\<rparr>, Suc w)
          else (Fulfilled \<lparr>ok = True,
                  json = Some (Result True (Some (''https://i.ibb.co/'' @ File.name f)))\<rparr>, Suc w)
      | _ \<Rightarrow> (Fulfilled \<lparr>ok = True, json = None\<rparr>, Suc w))"

definition example_runtime :: "nat runtime" where
  "example_runtime =
     \<lparr>Number = example_Number, parseFloat = decimal,
      parseInt = (\<lambda>val radix. decimal val),
      fetch = example_fetch, NEXT_PUBLIC_IMGBB_API = ''key''\<rparr>"

definition example_file :: "string \<Rightarrow> File" where
  "example_file n = \<lparr>File.name = n, size = 2048, type = ''image/png''\<rparr>"

definition example_values :: "File option list \<Rightarrow> ProductFormValues" where
  "example_values fs =
     \<lparr>name = ''Desk lamp'', categorySlug = ''home'', price = ''25'',
      images = map (\<lambda>f. \<lparr>file_value = f\<rparr>) fs,
      variants = [''black'', ''white'', ''red'', ''green'', ''blue''],
      description = ''A lamp for the desk.'',
      specifications = [''LED'', ''5 W'', ''USB'', ''40 cm'', ''metal'', ''dimmable''],
      stock = ''12''\<rparr>"

definition example_state :: "ProductFormValues \<Rightarrow> nat state" where
  "example_state values =
     \<lparr>isLoading = False, toasts = [], console = [], form = values, trace = [], world = 0\<rparr>"

subsection \<open>Auxiliary predicates for the proofs about a run\<close>

text \<open>The second state continues the first: the same interface, and a longer trace.\<close>

definition extends :: "'w state \<Rightarrow> event list \<Rightarrow> 'w state \<Rightarrow> bool" where
  "extends s evs s' \<longleftrightarrow>
     trace s' = trace s @ evs \<and> isLoading s' = isLoading s \<and> toasts s' = toasts s \<and>
     console s' = console s \<and> form s' = form s"

text \<open>What the loop over the images has done when it stops with result \<open>r\<close>.\<close>

definition uploads_spec ::
  "'w runtime \<Rightarrow> image list \<Rightarrow> string list \<Rightarrow> (error + string list) \<Rightarrow> event list \<Rightarrow> bool" where
  "uploads_spec rt imgs acc r evs \<longleftrightarrow>
     awaited evs \<and> \<not> create_failed evs \<and>
     prefix (requests evs) (map (uploadRequest rt) (files imgs)) \<and>
     prefix (map fst (uploads evs)) (map (uploadRequest rt) (files imgs)) \<and>
     upload_failed evs = isl r \<and>
     (\<forall>urls. r = Inr urls \<longrightarrow>
        requests evs = map (uploadRequest rt) (files imgs) \<and>
        map fst (uploads evs) = map (uploadRequest rt) (files imgs) \<and>
        urls = acc @ uploaded_urls evs)"

text \<open>What the interface shows after the \<open>catch\<close> block, and after the success path.\<close>

definition failure_shown :: "'w state \<Rightarrow> 'w state \<Rightarrow> bool" where
  "failure_shown s s' \<longleftrightarrow>
     toasts s' = toasts s @ [errorToast] \<and> form s' = form s \<and> isLoading s' = False \<and>
     (\<exists>e. console s' = console s @ [e])"

definition success_shown :: "ProductFormValues \<Rightarrow> 'w state \<Rightarrow> 'w state \<Rightarrow> bool" where
  "success_shown data s s' \<longleftrightarrow>
     toasts s' = toasts s @ [createdToast data] \<and> form s' = defaultValues \<and>
     isLoading s' = False \<and> console s' = console s"

definition outcome ::
  "'w runtime \<Rightarrow> string \<Rightarrow> string \<Rightarrow> ProductFormValues \<Rightarrow> 'w state \<Rightarrow> event list \<Rightarrow> 'w state \<Rightarrow> bool"
where
  "outcome rt role shopName data s evs s' \<longleftrightarrow>
     trace s' = trace s @ evs \<and> awaited evs \<and>
     (if upload_failed evs
      then prefix (requests evs) (map (uploadRequest rt) (files (images data))) \<and>
           \<not> create_failed evs \<and> failure_shown s s'
      else requests evs =
             map (uploadRequest rt) (files (images data)) @
             [productRequest rt role shopName data (uploaded_urls evs)] \<and>
           map fst (uploads evs) = map (uploadRequest rt) (files (images data)) \<and>
           (if create_failed evs then failure_shown s s' else success_shown data s s'))"


section \<open>The relational schema (prisma/schema.prisma)\<close>

subsection \<open>Rows\<close>

text \<open>
  One record per model, with the scalar columns of the schema in their order; the relation
  fields of a model (\<open>user\<close>, \<open>shop\<close>, \<open>products\<close>, ...) are not columns. \<open>String?\<close> is an
  option, \<open>DateTime\<close> a point in time, \<open>Float\<close> a double, \<open>Int\<close> a 32-bit integer
  (the type \<open>Int32\<close>, a word read as signed). The models \<open>Account\<close>, \<open>Session\<close>, \<open>VerificationToken\<close>, \<open>Review\<close> and \<open>Wishlist\<close> are not
  referenced by the six models below and are left out.
\<close>

datatype Role = buyer | seller | admin

datatype Status = active | suspended

type_synonym DateTime = nat

type_synonym Float = number

type_synonym Int32 = "32 word"

record User =
  id :: string
  name :: "string option"
  image :: "string option"
  role :: Role
  email :: string
  emailVerified :: "DateTime option"
  password :: "string option"
  status :: Status
  createdAt :: DateTime
  updatedAt :: DateTime

record Category =
  id :: string
  name :: string
  slug :: string
  image :: string
  details :: string
  status :: Status
  createdAt :: DateTime
  updatedAt :: DateTime

record Shop =
  id :: string
  name :: string
  image :: string
  details :: string
  address :: string
  sellerEmail :: string
  status :: Status
  createdAt :: DateTime
  updatedAt :: DateTime

record Product =
  id :: string
  name :: string
  images :: "string list"
  variants :: "string list"
  price :: Float
  stock :: Int32
  description :: string
  specifications :: "string list"
  shopName :: string
  categorySlug :: string
  createdAt :: DateTime
  updatedAt :: DateTime

record Order =
  id :: string
  paymentId :: string
  status :: string
  totalAmount :: Float
  userEmail :: string
  createdAt :: DateTime
  updatedAt :: DateTime

record Cart =
  id :: string
  productId :: string
  name :: string
  price :: Float
  variant :: string
  quantity :: Int32
  image :: string
  shopName :: string
  categorySlug :: string
  orderId :: "string option"

text \<open>The tables, under the names the schema maps them to.\<close>

record db =
  users :: "User list"
  categories :: "Category list"
  shops :: "Shop list"
  products :: "Product list"
  orders :: "Order list"
  order_products :: "Cart list"

definition empty_db :: db where
  "empty_db =
     \<lparr>users = [], categories = [], shops = [], products = [], orders = [],
      order_products = []\<rparr>"

subsection \<open>Constraints declared by the schema\<close>

text \<open>\<open>@id\<close> and \<open>@unique\<close>: no two rows of the table agree on the column.\<close>

definition unique :: "('r \<Rightarrow> 'k) \<Rightarrow> 'r list \<Rightarrow> bool" where
  "unique col rows \<longleftrightarrow> distinct (map col rows)"

text \<open>\<open>@relation(fields: [fk], references: [key])\<close>: the value is a key of the other table.\<close>

definition present :: "'k \<Rightarrow> ('p \<Rightarrow> 'k) \<Rightarrow> 'p list \<Rightarrow> bool" where
  "present k key parents \<longleftrightarrow> k \<in> set (map key parents)"

definition references :: "('r \<Rightarrow> 'k) \<Rightarrow> 'r list \<Rightarrow> ('p \<Rightarrow> 'k) \<Rightarrow> 'p list \<Rightarrow> bool" where
  "references fk rows key parents \<longleftrightarrow> list_all (\<lambda>r. present (fk r) key parents) rows"

text \<open>The same for an optional relation: \<open>NULL\<close> references nothing.\<close>

definition references_opt ::
  "('r \<Rightarrow> 'k option) \<Rightarrow> 'r list \<Rightarrow> ('p \<Rightarrow> 'k) \<Rightarrow> 'p list \<Rightarrow> bool" where
  "references_opt fk rows key parents \<longleftrightarrow>
     list_all (\<lambda>r. case fk r of None \<Rightarrow> True | Some k \<Rightarrow> present k key parents) rows"

definition constraints :: "db \<Rightarrow> bool" where
  "constraints d \<longleftrightarrow>
     unique User.id (users d) \<and>
     unique User.email (users d) \<and>
     unique Category.id (categories d) \<and>
     unique Category.slug (categories d) \<and>
     unique Shop.id (shops d) \<and>
     unique Shop.name (shops d) \<and>
     unique Shop.sellerEmail (shops d) \<and>
     references Shop.sellerEmail (shops d) User.email (users d) \<and>
     unique Product.id (products d) \<and>
     unique Product.name (products d) \<and>
     references Product.shopName (products d) Shop.name (shops d) \<and>
     references Product.categorySlug (products d) Category.slug (categories d) \<and>
     unique Order.id (orders d) \<and>
     unique Order.paymentId (orders d) \<and>
     references Order.userEmail (orders d) User.email (users d) \<and>
     unique Cart.id (order_products d) \<and>
     references_opt Cart.orderId (order_products d) Order.id (orders d)"

subsection \<open>Statements\<close>

text \<open>
  Modelled from the spec: the API route handlers that write to the database are not part
  of the sources. By the spec, entities are created via API POSTs, updated via status or
  role changes, and persisted through the ORM into the relational store. The statements
  below are those writes, one row at a time, together with the deletion of a row; the
  database carries each out only if the constraints of the schema allow it. A relation
  without \<open>onDelete\<close> restricts the deletion of a referenced row when its foreign key is
  required, and sets the foreign key to \<open>NULL\<close> when it is optional.
\<close>

datatype statement =
    InsertUser User
  | InsertCategory Category
  | InsertShop Shop
  | InsertProduct Product
  | InsertOrder Order
  | InsertCart Cart
  | SetUserRole string Role
  | SetUserStatus string Status
  | SetCategoryStatus string Status
  | SetShopStatus string Status
  | SetOrderStatus string string
  | DeleteUser string
  | DeleteCategory string
  | DeleteShop string
  | DeleteProduct string
  | DeleteOrder string
  | DeleteCart string

definition fresh :: "('r \<Rightarrow> 'k) \<Rightarrow> 'r \<Rightarrow> 'r list \<Rightarrow> bool" where
  "fresh col r rows \<longleftrightarrow> \<not> present (col r) col rows"

text \<open>
  Modelled from the spec: what the database does with a statement of an API route handler
  (the handlers are not part of the sources). An insertion needs fresh values in the
  \<open>@id\<close> and \<open>@unique\<close> columns and existing rows behind its relations; an update of a
  status or role needs the row; a deletion needs the row and no row that references it
  through a required relation. \<open>None\<close>: the database refuses the statement, and nothing
  changes.
\<close>

fun execute :: "db \<Rightarrow> statement \<Rightarrow> db option" where
  "execute d (InsertUser u) =
     (if fresh User.id u (users d) \<and> fresh User.email u (users d)
      then Some (d\<lparr>users := users d @ [u]\<rparr>) else None)"
| "execute d (InsertCategory c) =
     (if fresh Category.id c (categories d) \<and> fresh Category.slug c (categories d)
      then Some (d\<lparr>categories := categories d @ [c]\<rparr>) else None)"
| "execute d (InsertShop s) =
     (if fresh Shop.id s (shops d) \<and> fresh Shop.name s (shops d) \<and>
         fresh Shop.sellerEmail s (shops d) \<and>
         present (Shop.sellerEmail s) User.email (users d)
      then Some (d\<lparr>shops := shops d @ [s]\<rparr>) else None)"
| "execute d (InsertProduct p) =
     (if fresh Product.id p (products d) \<and> fresh Product.name p (products d) \<and>
         present (Product.shopName p) Shop.name (shops d) \<and>
         present (Product.categorySlug p) Category.slug (categories d)
      then Some (d\<lparr>products := products d @ [p]\<rparr>) else None)"
| "execute d (InsertOrder r) =
     (if fresh Order.id r (orders d) \<and> fresh Order.paymentId r (orders d) \<and>
         present (Order.userEmail r) User.email (users d)
      then Some (d\<lparr>orders := orders d @ [r]\<rparr>) else None)"
| "execute d (InsertCart c) =
     (if fresh Cart.id c (order_products d) \<and>
         (case Cart.orderId c of None \<Rightarrow> True | Some k \<Rightarrow> present k Order.id (orders d))
      then Some (d\<lparr>order_products := order_products d @ [c]\<rparr>) else None)"
| "execute d (SetUserRole k v) =
     (if present k User.id (users d)
      then Some (d\<lparr>users :=
             map (\<lambda>u. if User.id u = k then u\<lparr>User.role := v\<rparr> else u) (users d)\<rparr>)
      else None)"
| "execute d (SetUserStatus k v) =
     (if present k User.id (users d)
      then Some (d\<lparr>users :=
             map (\<lambda>u. if User.id u = k then u\<lparr>User.status := v\<rparr> else u) (users d)\<rparr>)
      else None)"
| "execute d (SetCategoryStatus k v) =
     (if present k Category.id (categories d)
      then Some (d\<lparr>categories :=
             map (\<lambda>c. if Category.id c = k then c\<lparr>Category.status := v\<rparr> else c) (categories d)\<rparr>)
      else None)"
| "execute d (SetShopStatus k v) =
     (if present k Shop.id (shops d)
      then Some (d\<lparr>shops :=
             map (\<lambda>s. if Shop.id s = k then s\<lparr>Shop.status := v\<rparr> else s) (shops d)\<rparr>)
      else None)"
| "execute d (SetOrderStatus k v) =
     (if present k Order.id (orders d)
      then Some (d\<lparr>orders :=
             map (\<lambda>r. if Order.id r = k then r\<lparr>Order.status := v\<rparr> else r) (orders d)\<rparr>)
      else None)"
| "execute d (DeleteUser k) =
     (case find (\<lambda>u. User.id u = k) (users d) of
        None \<Rightarrow> None
      | Some u \<Rightarrow>
          if present (User.email u) Shop.sellerEmail (shops d) \<or>
             present (User.email u) Order.userEmail (orders d)
          then None
          else Some (d\<lparr>users := filter (\<lambda>u. User.id u \<noteq> k) (users d)\<rparr>))"
| "execute d (DeleteCategory k) =
     (case find (\<lambda>c. Category.id c = k) (categories d) of
        None \<Rightarrow> None
      | Some c \<Rightarrow>
          if present (Category.slug c) Product.categorySlug (products d)
          then None
          else Some (d\<lparr>categories := filter (\<lambda>c. Category.id c \<noteq> k) (categories d)\<rparr>))"
| "execute d (DeleteShop k) =
     (case find (\<lambda>s. Shop.id s = k) (shops d) of
        None \<Rightarrow> None
      | Some s \<Rightarrow>
          if present (Shop.name s) Product.shopName (products d)
          then None
          else Some (d\<lparr>shops := filter (\<lambda>s. Shop.id s \<noteq> k) (shops d)\<rparr>))"
| "execute d (DeleteProduct k) =
     (if present k Product.id (products d)
      then Some (d\<lparr>products := filter (\<lambda>p. Product.id p \<noteq> k) (products d)\<rparr>)
      else None)"
| "execute d (DeleteOrder k) =
     (if present k Order.id (orders d)
      then Some (d\<lparr>orders := filter (\<lambda>r. Order.id r \<noteq> k) (orders d),
                   order_products :=
                     map (\<lambda>c. if Cart.orderId c = Some k then c\<lparr>Cart.orderId := None\<rparr> else c)
                       (order_products d)\<rparr>)
      else None)"
| "execute d (DeleteCart k) =
     (if present k Cart.id (order_products d)
      then Some (d\<lparr>order_products := filter (\<lambda>c. Cart.id c \<noteq> k) (order_products d)\<rparr>)
      else None)"

text \<open>
  Modelled from the spec: the states the database can be in. The handlers that write to
  it are not part of the sources; by the spec every change is one of the statements
  above, and the database starts empty.
\<close>

inductive reachable :: "db \<Rightarrow> bool" where
  initial: "reachable empty_db"
| step: "reachable d \<Longrightarrow> execute d st = Some d' \<Longrightarrow> reachable d'"

text \<open>The line-items of an order.\<close>

definition line_items :: "db \<Rightarrow> Order \<Rightarrow> Cart list" where
  "line_items d r = filter (\<lambda>c. Cart.orderId c = Some (Order.id r)) (order_products d)"

text \<open>The product data a line-item carries, copied into its own columns.\<close>

definition snapshot :: "Cart \<Rightarrow> string \<times> Float \<times> string \<times> Int32 \<times> string" where
  "snapshot c = (Cart.name c, Cart.price c, Cart.variant c, Cart.quantity c, Cart.image c)"

text \<open>A list of statements, each carried out in the state the one before has left.\<close>

fun execute_all :: "db \<Rightarrow> statement list \<Rightarrow> db option" where
  "execute_all d [] = Some d"
| "execute_all d (st # sts) =
     (case execute d st of None \<Rightarrow> None | Some d' \<Rightarrow> execute_all d' sts)"

subsection \<open>Rows for running the model on examples\<close>

definition example_user :: User where
  "example_user =
     \<lparr>User.id = ''u1'', name = Some ''Ada'', image = None, role = seller,
      email = ''ada@example.com'', emailVerified = None, password = None,
      status = active, createdAt = 0, updatedAt = 0\<rparr>"

definition example_category :: Category where
  "example_category =
     \<lparr>Category.id = ''c1'', name = ''Home and Garden'', slug = ''home'',
      image = ''home.png'', details = ''Lamps and more'', status = active,
      createdAt = 0, updatedAt = 0\<rparr>"

definition example_shop :: Shop where
  "example_shop =
     \<lparr>Shop.id = ''s1'', name = ''Lamps'', image = ''lamps.png'', details = ''Desk lamps'',
      address = ''1 Main Street'', sellerEmail = ''ada@example.com'', status = active,
      createdAt = 1, updatedAt = 1\<rparr>"

definition example_product :: Product where
  "example_product =
     \<lparr>Product.id = ''p1'', name = ''Desk lamp'', images = [''https://i.ibb.co/a.png''],
      variants = [''black'', ''white'', ''red'', ''green'', ''blue''],
      price = Finite 25, stock = 12, description = ''A lamp for the desk.'',
      specifications = [''LED'', ''5 W'', ''USB'', ''40 cm'', ''metal'', ''dimmable''],
      shopName = ''Lamps'', categorySlug = ''home'', createdAt = 2, updatedAt = 2\<rparr>"

definition example_order :: Order where
  "example_order =
     \<lparr>Order.id = ''o1'', paymentId = ''pay_1'', status = ''pending'',
      totalAmount = Finite 50, userEmail = ''ada@example.com'',
      createdAt = 3, updatedAt = 3\<rparr>"

definition example_cart :: Cart where
  "example_cart =
     \<lparr>Cart.id = ''l1'', productId = ''p1'', name = ''Desk lamp'', price = Finite 25,
      variant = ''black'', quantity = 2, image = ''https://i.ibb.co/a.png'',
      shopName = ''Lamps'', categorySlug = ''home'', orderId = Some ''o1''\<rparr>"

definition example_db :: db where
  "example_db =
     \<lparr>users = [example_user], categories = [example_category], shops = [example_shop],
      products = [], orders = [example_order], order_products = [example_cart]\<rparr>"

section \<open>Properties of the product-creation form\<close>

subsection \<open>Unfolding rules for the examples\<close>

lemmas example_defs =
  example_values_def example_state_def example_runtime_def example_file_def
  example_fetch_def example_Number_def decimal_def

lemmas schema_defs =
  productFormSchema_def schema_name_def schema_categorySlug_def schema_price_def
  schema_images_def schema_image_def schema_file_def schema_variants_def
  schema_description_def schema_specifications_def schema_stock_def
  MAX_FILE_SIZE_def ACCEPTED_IMAGE_TYPES_def gt_def ge_def le_def

lemmas submit_defs =
  run_def onSubmit_def try_block_def await_fetch_def uploadRequest_def
  productRequest_def productData_def

subsection \<open>Numbers\<close>

lemma gt_zero_not_le: "gt x (Finite 0) \<Longrightarrow> \<not> le x (Finite 0)"
  by (cases x) (auto simp: gt_def le_def)

lemma ge_zero_not_lt: "ge x (Finite 0) \<Longrightarrow> \<not> lt x (Finite 0)"
  by (cases x) (auto simp: ge_def le_def)

subsection \<open>The loop over the images\<close>

lemma files_Nil [simp]: "files [] = []"
  by (simp add: files_def)

lemma files_Cons:
  "files (obj # rest) =
     (case file_value obj of None \<Rightarrow> files rest | Some f \<Rightarrow> f # files rest)"
  by (simp add: files_def split: option.splits)


lemma upload_not_create [simp]: "\<not> is_create (uploadRequest rt f)"
  by (simp add: is_create_def uploadRequest_def)

lemma product_is_create [simp]: "is_create (productRequest rt rl shop data urls)"
  by (simp add: is_create_def productRequest_def)

lemma extends_refl: "extends s [] s"
  by (simp add: extends_def)

lemma extends_trans: "extends s a s1 \<Longrightarrow> extends s1 b s2 \<Longrightarrow> extends s (a @ b) s2"
  by (simp add: extends_def)

lemma await_fetch_extends:
  "await_fetch rt q s = (res, s') \<Longrightarrow> extends s [Sent q, Settled res] s'"
  by (auto simp: await_fetch_def extends_def split: prod.splits)

lemma uploads_spec_skip:
  "file_value obj = None \<Longrightarrow> uploads_spec rt rest acc r evs \<Longrightarrow>
   uploads_spec rt (obj # rest) acc r evs"
  by (simp add: uploads_spec_def files_Cons)

lemma uploads_spec_stop:
  "file_value obj = Some f \<Longrightarrow> uploaded res = None \<Longrightarrow>
   uploads_spec rt (obj # rest) acc (Inl e) [Sent (uploadRequest rt f), Settled res]"
  by (simp add: uploads_spec_def files_Cons)

lemma uploads_spec_step:
  "file_value obj = Some f \<Longrightarrow> uploaded res = Some u \<Longrightarrow>
   uploads_spec rt rest (acc @ [u]) r evs \<Longrightarrow>
   uploads_spec rt (obj # rest) acc r ([Sent (uploadRequest rt f), Settled res] @ evs)"
  by (simp add: uploads_spec_def files_Cons uploaded_urls_def)

lemma uploadImages_skip:
  "file_value obj = None \<Longrightarrow>
   uploadImages rt (obj # rest) acc s = uploadImages rt rest acc s"
  by simp

lemma uploadImages_stop:
  "file_value obj = Some f \<Longrightarrow> await_fetch rt (uploadRequest rt f) s = (res, s1) \<Longrightarrow>
   uploaded res = None \<Longrightarrow> \<exists>e. uploadImages rt (obj # rest) acc s = (Inl e, s1)"
  by (cases res) (auto split: option.splits)

lemma uploadImages_step:
  "file_value obj = Some f \<Longrightarrow> await_fetch rt (uploadRequest rt f) s = (res, s1) \<Longrightarrow>
   uploaded res = Some u \<Longrightarrow>
   uploadImages rt (obj # rest) acc s = uploadImages rt rest (acc @ [u]) s1"
  by (cases res) (auto split: option.splits if_splits)

text \<open>
  Induction on the slots, with the accumulator and the state generalised: a slot without
  a file is skipped, a failed upload ends the loop, a successful one adds its address.
\<close>

lemma uploadImages_run:
  "\<exists>evs. extends s evs (snd (uploadImages rt imgs acc s))
       \<and> uploads_spec rt imgs acc (fst (uploadImages rt imgs acc s)) evs"
proof (induction imgs arbitrary: acc s)
  case Nil
  show ?case
    by (rule exI [of _ "[]"]) (simp add: uploads_spec_def extends_refl uploaded_urls_def)
next
  case (Cons obj rest)
  show ?case
  proof (cases "file_value obj")
    case None
    from Cons.IH obtain evs where
      "extends s evs (snd (uploadImages rt rest acc s))"
      "uploads_spec rt rest acc (fst (uploadImages rt rest acc s)) evs" by blast
    then show ?thesis
      unfolding uploadImages_skip [OF None]
      using uploads_spec_skip [OF None] by blast
  next
    case (Some f)
    obtain res s1 where a: "await_fetch rt (uploadRequest rt f) s = (res, s1)"
      by (cases "await_fetch rt (uploadRequest rt f) s")
    note x1 = await_fetch_extends [OF a]
    show ?thesis
    proof (cases "uploaded res")
      case None
      from uploadImages_stop [OF Some a None] obtain e where
        "uploadImages rt (obj # rest) acc s = (Inl e, s1)" by blast
      then show ?thesis
        using x1 uploads_spec_stop [OF Some None, of rt rest acc e] by auto
    next
      case (Some u)
      note step = uploadImages_step [OF \<open>file_value obj = Some f\<close> a Some]
      from Cons.IH obtain evs where
        e1: "extends s1 evs (snd (uploadImages rt rest (acc @ [u]) s1))"
        and e2: "uploads_spec rt rest (acc @ [u])
                   (fst (uploadImages rt rest (acc @ [u]) s1)) evs"
        by blast
      show ?thesis
        unfolding step
        using extends_trans [OF x1 e1]
          uploads_spec_step [OF \<open>file_value obj = Some f\<close> Some e2]
        by blast
    qed
  qed
qed

subsection \<open>Traces\<close>

lemma requests_append: "requests (a @ b) = requests a @ requests b"
  by (induction a rule: requests.induct) simp_all

lemma awaited_append: "awaited a \<Longrightarrow> awaited (a @ b) = awaited b"
  by (induction a rule: awaited.induct) simp_all

lemma upload_failed_append:
  "awaited a \<Longrightarrow> upload_failed (a @ b) = (upload_failed a \<or> upload_failed b)"
  by (induction a rule: awaited.induct) simp_all

lemma create_failed_append:
  "awaited a \<Longrightarrow> create_failed (a @ b) = (create_failed a \<or> create_failed b)"
  by (induction a rule: awaited.induct) simp_all

lemma uploads_append: "awaited a \<Longrightarrow> uploads (a @ b) = uploads a @ uploads b"
  by (induction a rule: awaited.induct) (simp_all split: option.splits)

lemma prefix_uploads_not_create:
  "prefix qs (map (uploadRequest rt) fs) \<Longrightarrow> q \<in> set qs \<Longrightarrow> \<not> is_create q"
  using set_mono_prefix by fastforce


lemma filter_uploads [simp]:
  "filter is_create (map (uploadRequest rt) fs) = []"
  "filter (\<lambda>q. \<not> is_create q) (map (uploadRequest rt) fs) = map (uploadRequest rt) fs"
  by (induction fs) simp_all

subsection \<open>The three ways a run of onSubmit ends\<close>

lemma onSubmit_outcome:
  "\<exists>evs. outcome rt rl shop data s evs (onSubmit rt rl shop data s)"
proof -
  let ?s0 = "s\<lparr>isLoading := True\<rparr>"
  let ?imgs = "ProductFormValues.images data"
  obtain r s1 where u: "uploadImages rt ?imgs [] ?s0 = (r, s1)"
    by (cases "uploadImages rt ?imgs [] ?s0")
  from uploadImages_run [of ?s0 rt ?imgs "[]"] u obtain evs1 where
    x1: "extends ?s0 evs1 s1" and sp: "uploads_spec rt ?imgs [] r evs1"
    by auto
  show ?thesis
  proof (cases r)
    case (Inl e)
    have "onSubmit rt rl shop data s =
            s1\<lparr>console := console s1 @ [e], toasts := toasts s1 @ [errorToast],
               isLoading := False\<rparr>"
      using u Inl by (simp add: onSubmit_def try_block_def)
    then show ?thesis
      using x1 sp Inl
      by (intro exI [of _ evs1])
         (simp add: outcome_def extends_def uploads_spec_def failure_shown_def)
  next
    case (Inr urls)
    let ?q = "productRequest rt rl shop data urls"
    obtain res s2 where a: "await_fetch rt ?q s1 = (res, s2)"
      by (cases "await_fetch rt ?q s1")
    note x2 = await_fetch_extends [OF a]
    let ?evs = "evs1 @ [Sent ?q, Settled res]"
    from sp Inr have aw: "awaited evs1"
      and nf: "\<not> upload_failed evs1" "\<not> create_failed evs1"
      and rq: "requests evs1 = map (uploadRequest rt) (files ?imgs)"
      and up: "map fst (uploads evs1) = map (uploadRequest rt) (files ?imgs)"
      and ur: "urls = uploaded_urls evs1"
      by (simp_all add: uploads_spec_def)
    have f1: "upload_failed ?evs = False" "create_failed ?evs = (\<not> created res)"
      "awaited ?evs" "uploads ?evs = uploads evs1"
      "requests ?evs = map (uploadRequest rt) (files ?imgs) @ [?q]"
      using aw nf rq
      by (simp_all add: upload_failed_append create_failed_append awaited_append
            uploads_append requests_append)
    have f2: "uploaded_urls ?evs = urls"
      using f1(4) ur by (simp add: uploaded_urls_def)
    have x: "extends ?s0 ?evs s2" using extends_trans [OF x1 x2] .
    show ?thesis
    proof (cases "created res")
      case True
      then obtain resp where "res = Fulfilled resp" "ok resp" by (cases res) auto
      then have "onSubmit rt rl shop data s =
            s2\<lparr>toasts := toasts s2 @ [createdToast data], form := defaultValues,
               isLoading := False\<rparr>"
        using u Inr a by (simp add: onSubmit_def try_block_def)
      then show ?thesis
        using x True f1 f2 up
        by (intro exI [of _ ?evs]) (simp add: outcome_def extends_def success_shown_def)
    next
      case False
      then have "\<exists>e. onSubmit rt rl shop data s =
            s2\<lparr>console := console s2 @ [e], toasts := toasts s2 @ [errorToast],
               isLoading := False\<rparr>"
        using u Inr a by (cases res) (auto simp add: onSubmit_def try_block_def)
      then obtain e where "onSubmit rt rl shop data s =
            s2\<lparr>console := console s2 @ [e], toasts := toasts s2 @ [errorToast],
               isLoading := False\<rparr>"
        by blast
      then show ?thesis
        using x False f1 f2 up
        by (intro exI [of _ ?evs]) (simp add: outcome_def extends_def failure_shown_def)
    qed
  qed
qed

lemma run_outcome:
  "outcome rt rl shop data s (run rt rl shop data s) (onSubmit rt rl shop data s)"
proof -
  from onSubmit_outcome [of rt rl shop data s] obtain evs where
    o: "outcome rt rl shop data s evs (onSubmit rt rl shop data s)" by blast
  then have "run rt rl shop data s = evs"
    by (simp add: run_def outcome_def)
  with o show ?thesis by simp
qed

lemma create_request_in_run:
  assumes q: "q \<in> set (requests (run rt rl shop data s))" and c: "is_create q"
  shows "q = productRequest rt rl shop data (uploaded_urls (run rt rl shop data s))"
    and "map fst (uploads (run rt rl shop data s)) =
           map (uploadRequest rt) (files (ProductFormValues.images data))"
proof -
  let ?evs = "run rt rl shop data s"
  let ?planned = "map (uploadRequest rt) (files (ProductFormValues.images data))"
  note o = run_outcome [of rt rl shop data s, unfolded outcome_def]
  have nf: "\<not> upload_failed ?evs"
  proof
    assume "upload_failed ?evs"
    with o have "prefix (requests ?evs) ?planned" by simp
    from prefix_uploads_not_create [OF this q] c show False by simp
  qed
  with o have r: "requests ?evs = ?planned @ [productRequest rt rl shop data (uploaded_urls ?evs)]"
    and u: "map fst (uploads ?evs) = ?planned"
    by simp_all
  from r q c show "q = productRequest rt rl shop data (uploaded_urls ?evs)" by auto
  show "map fst (uploads ?evs) = ?planned" by (rule u)
qed


subsection \<open>Validation\<close>

text \<open>
  The stock check compares with \<open>>= 0\<close>, the price check with \<open>> 0\<close>: a string that
  \<open>Number\<close> reads as \<open>0\<close> passes the first and fails the second. (In JavaScript the empty
  string is read as \<open>0\<close>.)
\<close>

lemma number_zero_stock_and_price:
  "Number rt val = Finite 0 \<Longrightarrow>
     schema_stock (Number rt) val \<and> \<not> schema_price (Number rt) val"
  by (simp add: schema_stock_def schema_price_def ge_def le_def gt_def)

text \<open>
  What the two checks do reject: a price that \<open>Number\<close> reads as \<open>NaN\<close> or as a number
  less than or equal to \<open>0\<close>, and a stock that \<open>Number\<close> reads as \<open>NaN\<close>. Values that fail
  the schema are not submitted: \<open>handleSubmit\<close> leaves the state as it is.
\<close>

lemma schema_rejects_nan_and_nonpositive_price:
  assumes "isNaN (Number rt (ProductFormValues.price (form s)))
         \<or> le (Number rt (ProductFormValues.price (form s))) (Finite 0)
         \<or> isNaN (Number rt (ProductFormValues.stock (form s)))"
  shows "\<not> productFormSchema (Number rt) (form s) \<and> handleSubmit rt rl shop s = s"
proof -
  have "\<not> productFormSchema (Number rt) (form s)"
    using assms gt_zero_not_le
    by (auto simp: productFormSchema_def schema_price_def schema_stock_def)
  then show ?thesis by (simp add: handleSubmit_def)
qed

text \<open>
  C1. A stock string that does not parse to a number is to be rejected and never
  submitted; the code lets one through. The stock of the fresh form is the empty string;
  \<open>Number\<close> reads it as \<open>0\<close>, so the check \<open>!isNaN(Number(val)) && Number(val) >= 0\<close> lets
  it pass, while \<open>parseInt\<close>, which \<open>onSubmit\<close> uses for the stock it sends, reads it as
  \<open>NaN\<close>. With the other fields valid, the schema accepts the values, \<open>handleSubmit\<close>
  calls \<open>onSubmit\<close>, and the one request of the run is the \<open>POST\<close> to \<open>/api/products\<close>
  whose body has \<open>null\<close> for the stock. (The price check, with \<open>> 0\<close>, rejects the empty
  string.)
\<close>

theorem blank_stock_is_accepted_and_posted:
  "ProductFormValues.stock
       ((example_values [None, None, None, None, None])\<lparr>ProductFormValues.stock := []\<rparr>)
     = ProductFormValues.stock defaultValues
   \<and> isNaN (parseInt example_runtime (ProductFormValues.stock
       ((example_values [None, None, None, None, None])\<lparr>ProductFormValues.stock := []\<rparr>)) 10)
   \<and> productFormSchema (Number example_runtime)
       ((example_values [None, None, None, None, None])\<lparr>ProductFormValues.stock := []\<rparr>)
   \<and> map url (requests (trace (handleSubmit example_runtime ''seller'' ''Lamps''
       (example_state
          ((example_values [None, None, None, None, None])\<lparr>ProductFormValues.stock := []\<rparr>)))))
     = [''/api/products'']
   \<and> map body (requests (trace (handleSubmit example_runtime ''seller'' ''Lamps''
       (example_state
          ((example_values [None, None, None, None, None])\<lparr>ProductFormValues.stock := []\<rparr>)))))
     = [Text (JObject
         [(''name'', JString ''Desk lamp''),
          (''images'', JArray []),
          (''variants'', JArray [JString ''black'', JString ''white'', JString ''red'',
              JString ''green'', JString ''blue'']),
          (''price'', JNumber 25),
          (''stock'', JNull),
          (''description'', JString ''A lamp for the desk.''),
          (''specifications'', JArray [JString ''LED'', JString ''5 W'', JString ''USB'',
              JString ''40 cm'', JString ''metal'', JString ''dimmable'']),
          (''categorySlug'', JString ''home''),
          (''shopName'', JString ''Lamps'')])]
   \<and> \<not> schema_price (Number example_runtime) []"
  by (simp add: example_defs schema_defs submit_defs handleSubmit_def defaultValues_def)

text \<open>
  C2. The schema accepts only values whose \<open>images\<close> array has length 5, whose \<open>variants\<close>
  array has length 5 and whose \<open>specifications\<close> array has length 6.
\<close>

theorem schema_fixes_array_lengths:
  "productFormSchema (Number rt) data \<Longrightarrow>
     length (ProductFormValues.images data) = 5
   \<and> length (ProductFormValues.variants data) = 5
   \<and> length (ProductFormValues.specifications data) = 6"
  by (simp add: productFormSchema_def schema_images_def schema_variants_def
        schema_specifications_def)

theorem schema_fixes_array_lengths_witness:
  "productFormSchema (Number example_runtime)
     (example_values [Some (example_file ''a.png''), None, None, None, None])
   \<and> length (ProductFormValues.images
       (example_values [Some (example_file ''a.png''), None, None, None, None])) = 5
   \<and> length (ProductFormValues.variants
       (example_values [Some (example_file ''a.png''), None, None, None, None])) = 5
   \<and> length (ProductFormValues.specifications
       (example_values [Some (example_file ''a.png''), None, None, None, None])) = 6"
proof -
  have h: "productFormSchema (Number example_runtime)
     (example_values [Some (example_file ''a.png''), None, None, None, None])"
    by (simp add: example_defs schema_defs)
  from schema_fixes_array_lengths [OF h] h show ?thesis by blast
qed

text \<open>
  C10. The schema rejects the values when a slot holds a file of more than
  \<open>5 * 1024 * 1024\<close> bytes or of a MIME type other than \<open>image/jpeg\<close>, \<open>image/png\<close> and
  \<open>image/webp\<close>, and when \<open>Number\<close> of the stock string is a number below \<open>0\<close>.
\<close>

theorem schema_rejects_bad_files_and_negative_stock:
  assumes "(\<exists>obj \<in> set (ProductFormValues.images data). \<exists>f. file_value obj = Some f
              \<and> (5 * 1024 * 1024 < File.size f
                 \<or> File.type f \<notin> {''image/jpeg'', ''image/png'', ''image/webp''}))
         \<or> lt (Number rt (ProductFormValues.stock data)) (Finite 0)"
  shows "\<not> productFormSchema (Number rt) data"
proof
  assume v: "productFormSchema (Number rt) data"
  then have st: "ge (Number rt (ProductFormValues.stock data)) (Finite 0)"
    and im: "list_all schema_image (ProductFormValues.images data)"
    by (simp_all add: productFormSchema_def schema_stock_def schema_images_def)
  from assms show False
  proof
    assume "\<exists>obj \<in> set (ProductFormValues.images data). \<exists>f. file_value obj = Some f
              \<and> (5 * 1024 * 1024 < File.size f
                 \<or> File.type f \<notin> {''image/jpeg'', ''image/png'', ''image/webp''})"
    then obtain obj f where
      o: "obj \<in> set (ProductFormValues.images data)" "file_value obj = Some f"
      and bad: "5 * 1024 * 1024 < File.size f
                \<or> File.type f \<notin> {''image/jpeg'', ''image/png'', ''image/webp''}"
      by blast
    from im o have "schema_file f" by (auto simp: list_all_iff schema_image_def)
    with bad show False
      by (auto simp: schema_file_def MAX_FILE_SIZE_def ACCEPTED_IMAGE_TYPES_def)
  next
    assume "lt (Number rt (ProductFormValues.stock data)) (Finite 0)"
    with st ge_zero_not_lt show False by blast
  qed
qed

theorem schema_rejects_bad_files_and_negative_stock_witness:
  "lt (Number example_runtime (ProductFormValues.stock
        ((example_values [None, None, None, None, None])\<lparr>ProductFormValues.stock := ''-3''\<rparr>)))
      (Finite 0)
   \<and> \<not> isNaN (Number example_runtime (ProductFormValues.stock
        ((example_values [None, None, None, None, None])\<lparr>ProductFormValues.stock := ''-3''\<rparr>)))
   \<and> \<not> productFormSchema (Number example_runtime)
        ((example_values [None, None, None, None, None])\<lparr>ProductFormValues.stock := ''-3''\<rparr>)
   \<and> \<not> productFormSchema (Number example_runtime)
        (example_values [None, Some \<lparr>File.name = ''scan.gif'', size = 6000000, type = ''image/gif''\<rparr>,
           None, None, None])"
proof -
  let ?d = "(example_values [None, None, None, None, None])\<lparr>ProductFormValues.stock := ''-3''\<rparr>"
  let ?f = "\<lparr>File.name = ''scan.gif'', size = 6000000, type = ''image/gif''\<rparr>"
  let ?e = "example_values [None, Some ?f, None, None, None]"
  have h: "lt (Number example_runtime (ProductFormValues.stock ?d)) (Finite 0)"
    and n: "\<not> isNaN (Number example_runtime (ProductFormValues.stock ?d))"
    by (simp_all add: example_defs)
  have "\<lparr>file_value = Some ?f\<rparr> \<in> set (ProductFormValues.images ?e)
        \<and> file_value \<lparr>file_value = Some ?f\<rparr> = Some ?f \<and> 5 * 1024 * 1024 < File.size ?f"
    by (simp add: example_defs)
  then have g: "\<exists>obj \<in> set (ProductFormValues.images ?e). \<exists>f. file_value obj = Some f
              \<and> (5 * 1024 * 1024 < File.size f
                 \<or> File.type f \<notin> {''image/jpeg'', ''image/png'', ''image/webp''})"
    by blast
  from schema_rejects_bad_files_and_negative_stock [of ?d example_runtime, OF disjI2, OF h]
       schema_rejects_bad_files_and_negative_stock [of ?e example_runtime, OF disjI1, OF g] h n
  show ?thesis by blast
qed

subsection \<open>Submission\<close>



text \<open>
  C4. The body of the request that \<open>onSubmit\<close> posts to \<open>/api/products\<close> is the JSON text of
  an object with exactly the fields \<open>name\<close>, \<open>images\<close>, \<open>variants\<close>, \<open>price\<close>, \<open>stock\<close>,
  \<open>description\<close>, \<open>specifications\<close>, \<open>categorySlug\<close> and \<open>shopName\<close>, in which \<open>price\<close> is
  \<open>parseFloat\<close> of the price string, \<open>stock\<close> is \<open>parseInt\<close> of the stock string in base 10
  (each as \<open>JSON.stringify\<close> writes a number) and \<open>shopName\<close> is the property of the
  component; the request carries a header \<open>role\<close> with the role property.
\<close>

theorem onSubmit_posts_product_data:
  "\<forall>q \<in> set (requests (run rt rl shop data s)). is_create q \<longrightarrow>
     map_of (headers q) ''role'' = Some rl \<and>
     body q = Text (JObject
       [(''name'', JString (ProductFormValues.name data)),
        (''images'', JArray (map JString (uploaded_urls (run rt rl shop data s)))),
        (''variants'', JArray (map JString (ProductFormValues.variants data))),
        (''price'', JSON_stringify (JSNumber (parseFloat rt (ProductFormValues.price data)))),
        (''stock'', JSON_stringify (JSNumber (parseInt rt (ProductFormValues.stock data) 10))),
        (''description'', JString (ProductFormValues.description data)),
        (''specifications'', JArray (map JString (ProductFormValues.specifications data))),
        (''categorySlug'', JString (ProductFormValues.categorySlug data)),
        (''shopName'', JString shop)])"
proof (intro ballI impI)
  fix q
  assume "q \<in> set (requests (run rt rl shop data s))" and "is_create q"
  then have "q = productRequest rt rl shop data (uploaded_urls (run rt rl shop data s))"
    by (rule create_request_in_run)
  then show "map_of (headers q) ''role'' = Some rl \<and>
     body q = Text (JObject
       [(''name'', JString (ProductFormValues.name data)),
        (''images'', JArray (map JString (uploaded_urls (run rt rl shop data s)))),
        (''variants'', JArray (map JString (ProductFormValues.variants data))),
        (''price'', JSON_stringify (JSNumber (parseFloat rt (ProductFormValues.price data)))),
        (''stock'', JSON_stringify (JSNumber (parseInt rt (ProductFormValues.stock data) 10))),
        (''description'', JString (ProductFormValues.description data)),
        (''specifications'', JArray (map JString (ProductFormValues.specifications data))),
        (''categorySlug'', JString (ProductFormValues.categorySlug data)),
        (''shopName'', JString shop)])"
    by (simp add: productRequest_def productData_def comp_def)
qed

theorem onSubmit_posts_product_data_witness:
  "productRequest example_runtime ''seller'' ''Lamps''
       (example_values [Some (example_file ''a.png''), None, None, None, None])
       [''https://i.ibb.co/a.png'']
     \<in> set (requests (run example_runtime ''seller'' ''Lamps''
           (example_values [Some (example_file ''a.png''), None, None, None, None])
           (example_state defaultValues)))
   \<and> is_create (productRequest example_runtime ''seller'' ''Lamps''
       (example_values [Some (example_file ''a.png''), None, None, None, None])
       [''https://i.ibb.co/a.png''])
   \<and> map_of (headers (productRequest example_runtime ''seller'' ''Lamps''
       (example_values [Some (example_file ''a.png''), None, None, None, None])
       [''https://i.ibb.co/a.png''])) ''role'' = Some ''seller''
   \<and> body (productRequest example_runtime ''seller'' ''Lamps''
       (example_values [Some (example_file ''a.png''), None, None, None, None])
       [''https://i.ibb.co/a.png'']) =
     Text (JObject
       [(''name'', JString ''Desk lamp''),
        (''images'', JArray [JString ''https://i.ibb.co/a.png'']),
        (''variants'', JArray [JString ''black'', JString ''white'', JString ''red'',
            JString ''green'', JString ''blue'']),
        (''price'', JNumber 25),
        (''stock'', JNumber 12),
        (''description'', JString ''A lamp for the desk.''),
        (''specifications'', JArray [JString ''LED'', JString ''5 W'', JString ''USB'',
            JString ''40 cm'', JString ''metal'', JString ''dimmable'']),
        (''categorySlug'', JString ''home''),
        (''shopName'', JString ''Lamps'')])"
proof -
  let ?d = "example_values [Some (example_file ''a.png''), None, None, None, None]"
  let ?evs = "run example_runtime ''seller'' ''Lamps'' ?d (example_state defaultValues)"
  let ?q = "productRequest example_runtime ''seller'' ''Lamps'' ?d [''https://i.ibb.co/a.png'']"
  have h1: "?q \<in> set (requests ?evs)"
    by (simp add: example_defs submit_defs)
  have h2: "is_create ?q"
    by (simp add: is_create_def productRequest_def)
  have u: "uploaded_urls ?evs = [''https://i.ibb.co/a.png'']"
    by (simp add: example_defs submit_defs uploaded_urls_def is_create_def)
  from onSubmit_posts_product_data
         [of example_runtime "''seller''" "''Lamps''" ?d "example_state defaultValues",
          THEN bspec, OF h1, THEN mp, OF h2]
  have "map_of (headers ?q) ''role'' = Some ''seller'' \<and>
     body ?q = Text (JObject
       [(''name'', JString (ProductFormValues.name ?d)),
        (''images'', JArray (map JString (uploaded_urls ?evs))),
        (''variants'', JArray (map JString (ProductFormValues.variants ?d))),
        (''price'', JSON_stringify (JSNumber (parseFloat example_runtime (ProductFormValues.price ?d)))),
        (''stock'', JSON_stringify (JSNumber (parseInt example_runtime (ProductFormValues.stock ?d) 10))),
        (''description'', JString (ProductFormValues.description ?d)),
        (''specifications'', JArray (map JString (ProductFormValues.specifications ?d))),
        (''categorySlug'', JString (ProductFormValues.categorySlug ?d)),
        (''shopName'', JString ''Lamps'')])" .
  then have "map_of (headers ?q) ''role'' = Some ''seller'' \<and>
     body ?q = Text (JObject
       [(''name'', JString ''Desk lamp''),
        (''images'', JArray [JString ''https://i.ibb.co/a.png'']),
        (''variants'', JArray [JString ''black'', JString ''white'', JString ''red'',
            JString ''green'', JString ''blue'']),
        (''price'', JNumber 25),
        (''stock'', JNumber 12),
        (''description'', JString ''A lamp for the desk.''),
        (''specifications'', JArray [JString ''LED'', JString ''5 W'', JString ''USB'',
            JString ''40 cm'', JString ''metal'', JString ''dimmable'']),
        (''categorySlug'', JString ''home''),
        (''shopName'', JString ''Lamps'')])"
    unfolding u by (simp add: example_values_def example_runtime_def decimal_def)
  with h1 h2 show ?thesis by blast
qed

text \<open>
  C5. When an upload or the request to \<open>/api/products\<close> fails in a run of \<open>onSubmit\<close>, the
  run still ends (the error is caught): it logs one error and shows one toast, the
  destructive toast titled "Error" with the text "There was a problem creating the
  product.", and leaves the values of the form as they were. The form is reset, and the
  toast "Product Created" of the default variant shown instead, only when nothing fails.
  In every run the requests are an initial part of the list "one upload per file, in slot
  order, then the product request": none is sent twice, and all of them are \<open>POST\<close>s, so
  nothing that was uploaded is taken back.
\<close>

theorem onSubmit_failure_is_reported_once:
  \<open>(let evs = run rt rl shop data s; s' = onSubmit rt rl shop data s in
    (if upload_failed evs \<or> create_failed evs
     then toasts s' =
            toasts s @ [Toast ''Error'' ''There was a problem creating the product.'' destructive] \<and>
          form s' = form s \<and>
          length (console s') = Suc (length (console s))
     else toasts s' =
            toasts s @
            [Toast ''Product Created''
               (''Product "'' @ ProductFormValues.name data @ ''" has been successfully created.'')
               default] \<and>
          form s' = defaultValues \<and>
          console s' = console s) \<and>
    isLoading s' = False \<and>
    prefix (requests evs)
      (map (uploadRequest rt) (files (ProductFormValues.images data)) @
       [productRequest rt rl shop data (uploaded_urls evs)]) \<and>
    list_all (\<lambda>q. http_method q = ''POST'') (requests evs))\<close>
proof -
  let ?evs = "run rt rl shop data s"
  let ?s' = "onSubmit rt rl shop data s"
  let ?planned = "map (uploadRequest rt) (files (ProductFormValues.images data))"
  let ?q = "productRequest rt rl shop data (uploaded_urls ?evs)"
  note o = run_outcome [of rt rl shop data s, unfolded outcome_def]
  have ui: "if upload_failed ?evs \<or> create_failed ?evs
     then failure_shown s ?s' else success_shown data s ?s'"
    using o by (auto split: if_splits)
  have pre: "prefix (requests ?evs) (?planned @ [?q])"
    using o by (auto split: if_splits intro: prefix_prefix)
  have "set (requests ?evs) \<subseteq> set (?planned @ [?q])"
    using set_mono_prefix [OF pre] .
  then have post: "list_all (\<lambda>q. http_method q = ''POST'') (requests ?evs)"
    by (auto simp: list_all_iff uploadRequest_def productRequest_def)
  have fin: "isLoading ?s' = False"
    using ui by (auto simp: failure_shown_def success_shown_def split: if_splits)
  show ?thesis
    using ui pre post fin
    by (auto simp: Let_def failure_shown_def success_shown_def errorToast_def
          createdToast_def split: if_splits)
qed

theorem onSubmit_failure_is_reported_once_witness:
  "upload_failed (run example_runtime ''seller'' ''Lamps''
      (example_values [Some (example_file ''a.png''), Some (example_file ''broken.png''),
         None, None, Some (example_file ''c.png'')])
      (example_state (example_values [Some (example_file ''a.png''),
         Some (example_file ''broken.png''), None, None, Some (example_file ''c.png'')])))
   \<and> toasts (onSubmit example_runtime ''seller'' ''Lamps''
      (example_values [Some (example_file ''a.png''), Some (example_file ''broken.png''),
         None, None, Some (example_file ''c.png'')])
      (example_state (example_values [Some (example_file ''a.png''),
         Some (example_file ''broken.png''), None, None, Some (example_file ''c.png'')])))
     = [Toast ''Error'' ''There was a problem creating the product.'' destructive]
   \<and> form (onSubmit example_runtime ''seller'' ''Lamps''
      (example_values [Some (example_file ''a.png''), Some (example_file ''broken.png''),
         None, None, Some (example_file ''c.png'')])
      (example_state (example_values [Some (example_file ''a.png''),
         Some (example_file ''broken.png''), None, None, Some (example_file ''c.png'')])))
     = example_values [Some (example_file ''a.png''), Some (example_file ''broken.png''),
         None, None, Some (example_file ''c.png'')]
   \<and> length (console (onSubmit example_runtime ''seller'' ''Lamps''
      (example_values [Some (example_file ''a.png''), Some (example_file ''broken.png''),
         None, None, Some (example_file ''c.png'')])
      (example_state (example_values [Some (example_file ''a.png''),
         Some (example_file ''broken.png''), None, None, Some (example_file ''c.png'')])))) = 1
   \<and> length (requests (run example_runtime ''seller'' ''Lamps''
      (example_values [Some (example_file ''a.png''), Some (example_file ''broken.png''),
         None, None, Some (example_file ''c.png'')])
      (example_state (example_values [Some (example_file ''a.png''),
         Some (example_file ''broken.png''), None, None, Some (example_file ''c.png'')])))) = 2"
proof -
  let ?d = "example_values [Some (example_file ''a.png''), Some (example_file ''broken.png''),
         None, None, Some (example_file ''c.png'')]"
  let ?evs = "run example_runtime ''seller'' ''Lamps'' ?d (example_state ?d)"
  have h: "upload_failed ?evs" and n: "length (requests ?evs) = 2"
    by (simp_all add: example_defs submit_defs is_create_def)
  have i: "toasts (example_state ?d) = []" "form (example_state ?d) = ?d"
    "console (example_state ?d) = []"
    by (simp_all add: example_state_def)
  from onSubmit_failure_is_reported_once
         [of example_runtime "''seller''" "''Lamps''" ?d "example_state ?d"] h n i
  show ?thesis by (simp add: Let_def)
qed



section \<open>Properties of the relational schema\<close>

subsection \<open>Unique columns and references under insertion, update and deletion\<close>

lemma unique_Nil: "unique col []"
  by (simp add: unique_def)

lemma unique_append: "unique col (rows @ [r]) \<longleftrightarrow> unique col rows \<and> fresh col r rows"
  by (auto simp: unique_def fresh_def present_def)

lemma unique_filter: "unique col rows \<Longrightarrow> unique col (filter P rows)"
  by (simp add: unique_def distinct_map_filter)

lemma unique_update:
  "(\<And>r. col (f r) = col r) \<Longrightarrow> unique col (map f rows) = unique col rows"
  by (simp add: unique_def comp_def)

lemma unique_inj:
  "unique col rows \<Longrightarrow> a \<in> set rows \<Longrightarrow> b \<in> set rows \<Longrightarrow> col a = col b \<Longrightarrow> a = b"
  by (auto simp: unique_def distinct_map dest: inj_onD)

lemma present_append: "present k key rows \<Longrightarrow> present k key (rows @ [r])"
  by (simp add: present_def)

lemma present_update:
  "(\<And>r. key (f r) = key r) \<Longrightarrow> present k key (map f rows) = present k key rows"
  by (simp add: present_def comp_def)

lemma present_filter:
  assumes u: "unique pk rows" and f: "find (\<lambda>r. pk r = i) rows = Some p"
    and k: "present k key rows" and n: "k \<noteq> key p"
  shows "present k key (filter (\<lambda>r. pk r \<noteq> i) rows)"
proof -
  from f have p: "p \<in> set rows" "pk p = i"
    by (auto simp: find_Some_iff)
  from k obtain r where r: "r \<in> set rows" "key r = k"
    by (auto simp: present_def)
  with n have "r \<noteq> p" by auto
  with unique_inj [OF u r(1) p(1)] p(2) have "pk r \<noteq> i" by auto
  with r show ?thesis by (auto simp: present_def)
qed

lemma references_Nil: "references fk [] key parents"
  by (simp add: references_def)

lemma references_append_child:
  "references fk (rows @ [r]) key parents \<longleftrightarrow>
     references fk rows key parents \<and> present (fk r) key parents"
  by (auto simp: references_def)

lemma references_append_parent:
  "references fk rows key parents \<Longrightarrow> references fk rows key (parents @ [p])"
  by (auto simp: references_def list_all_iff intro: present_append)

lemma references_filter_child:
  "references fk rows key parents \<Longrightarrow> references fk (filter P rows) key parents"
  by (auto simp: references_def list_all_iff)

lemma references_update_child:
  "(\<And>r. fk (f r) = fk r) \<Longrightarrow>
   references fk (map f rows) key parents = references fk rows key parents"
  by (simp add: references_def list_all_iff)

lemma references_update_parent:
  "(\<And>p. key (f p) = key p) \<Longrightarrow>
   references fk rows key (map f parents) = references fk rows key parents"
  by (simp add: references_def present_update)

lemma references_delete_parent:
  assumes u: "unique pk parents" and f: "find (\<lambda>p. pk p = i) parents = Some p"
    and n: "\<not> present (key p) fk rows" and r: "references fk rows key parents"
  shows "references fk rows key (filter (\<lambda>p. pk p \<noteq> i) parents)"
  unfolding references_def list_all_iff
proof
  fix c assume c: "c \<in> set rows"
  with r have k: "present (fk c) key parents" by (simp add: references_def list_all_iff)
  from n c have "fk c \<noteq> key p" by (force simp: present_def)
  from present_filter [OF u f k this]
  show "present (fk c) key (filter (\<lambda>p. pk p \<noteq> i) parents)" .
qed

lemma references_opt_Nil: "references_opt fk [] key parents"
  by (simp add: references_opt_def)

lemma references_opt_append_child:
  "references_opt fk (rows @ [r]) key parents \<longleftrightarrow>
     references_opt fk rows key parents \<and>
     (case fk r of None \<Rightarrow> True | Some k \<Rightarrow> present k key parents)"
  by (auto simp: references_opt_def)

lemma references_opt_append_parent:
  "references_opt fk rows key parents \<Longrightarrow> references_opt fk rows key (parents @ [p])"
  by (auto simp: references_opt_def list_all_iff intro: present_append split: option.splits)

lemma references_opt_filter_child:
  "references_opt fk rows key parents \<Longrightarrow> references_opt fk (filter P rows) key parents"
  by (auto simp: references_opt_def list_all_iff)

lemma references_opt_update_parent:
  "(\<And>p. key (f p) = key p) \<Longrightarrow>
   references_opt fk rows key (map f parents) = references_opt fk rows key parents"
  by (simp add: references_opt_def present_update cong: option.case_cong)

text \<open>Deleting an order sets the reference of its line-items to \<open>NULL\<close>.\<close>

lemma references_opt_delete_order:
  assumes u: "unique Order.id os" and r: "references_opt Cart.orderId cs Order.id os"
  shows "references_opt Cart.orderId
           (map (\<lambda>c. if Cart.orderId c = Some k then c\<lparr>Cart.orderId := None\<rparr> else c) cs)
           Order.id (filter (\<lambda>r. Order.id r \<noteq> k) os)"
  using r by (induction cs) (auto simp: references_opt_def present_def split: option.splits)

subsection \<open>Every statement preserves the constraints\<close>

lemma constraints_empty: "constraints empty_db"
  by (simp add: constraints_def empty_db_def unique_Nil references_Nil references_opt_Nil)

lemmas insert_rules =
  unique_append references_append_child references_append_parent
  references_opt_append_child references_opt_append_parent

lemmas update_rules =
  unique_update references_update_child references_update_parent
  references_opt_update_parent

lemmas delete_rules =
  unique_filter references_filter_child references_opt_filter_child
  references_delete_parent

lemma execute_insert_preserves:
  assumes "constraints d"
  shows "execute d (InsertUser u) = Some d' \<Longrightarrow> constraints d'"
    and "execute d (InsertCategory c) = Some d' \<Longrightarrow> constraints d'"
    and "execute d (InsertShop s) = Some d' \<Longrightarrow> constraints d'"
    and "execute d (InsertProduct p) = Some d' \<Longrightarrow> constraints d'"
    and "execute d (InsertOrder r) = Some d' \<Longrightarrow> constraints d'"
    and "execute d (InsertCart l) = Some d' \<Longrightarrow> constraints d'"
  using assms
  by (auto simp: constraints_def insert_rules split: if_splits)

lemma execute_update_preserves:
  assumes "constraints d"
  shows "execute d (SetUserRole k v1) = Some d' \<Longrightarrow> constraints d'"
    and "execute d (SetUserStatus k v2) = Some d' \<Longrightarrow> constraints d'"
    and "execute d (SetCategoryStatus k v2) = Some d' \<Longrightarrow> constraints d'"
    and "execute d (SetShopStatus k v2) = Some d' \<Longrightarrow> constraints d'"
    and "execute d (SetOrderStatus k v3) = Some d' \<Longrightarrow> constraints d'"
  using assms
  by (auto simp: constraints_def update_rules split: if_splits)

lemma execute_delete_preserves:
  assumes "constraints d"
  shows "execute d (DeleteUser k) = Some d' \<Longrightarrow> constraints d'"
    and "execute d (DeleteCategory k) = Some d' \<Longrightarrow> constraints d'"
    and "execute d (DeleteShop k) = Some d' \<Longrightarrow> constraints d'"
    and "execute d (DeleteProduct k) = Some d' \<Longrightarrow> constraints d'"
    and "execute d (DeleteOrder k) = Some d' \<Longrightarrow> constraints d'"
    and "execute d (DeleteCart k) = Some d' \<Longrightarrow> constraints d'"
  using assms
  by (auto simp: constraints_def delete_rules unique_update references_opt_delete_order
           split: if_splits option.splits)

lemma execute_preserves:
  "constraints d \<Longrightarrow> execute d st = Some d' \<Longrightarrow> constraints d'"
  by (cases st)
     (blast intro: execute_insert_preserves execute_update_preserves
        execute_delete_preserves)+

lemma reachable_constraints: "reachable d \<Longrightarrow> constraints d"
  by (induction rule: reachable.induct) (auto intro: constraints_empty execute_preserves)

subsection \<open>Reading the constraints as statements about rows\<close>

lemma present_iff: "present k key rows \<longleftrightarrow> (\<exists>r \<in> set rows. key r = k)"
  by (auto simp: present_def)

lemma unique_distinct: "unique col rows \<Longrightarrow> distinct (map col rows)"
  by (simp add: unique_def)

lemma references_unique_parent:
  assumes r: "references fk rows key parents" and u: "unique key parents"
    and c: "c \<in> set rows"
  shows "\<exists>!p. p \<in> set parents \<and> key p = fk c"
proof -
  from r c have "present (fk c) key parents" by (simp add: references_def list_all_iff)
  then obtain p where p: "p \<in> set parents" "key p = fk c" by (auto simp: present_iff)
  show ?thesis
  proof (rule ex1I [of _ p])
    show "p \<in> set parents \<and> key p = fk c" using p by simp
  next
    fix p' assume "p' \<in> set parents \<and> key p' = fk c"
    with unique_inj [OF u _ p(1), of p'] p(2) show "p' = p" by simp
  qed
qed

lemma references_opt_unique_parent:
  assumes r: "references_opt fk rows key parents" and u: "unique key parents"
    and c: "c \<in> set rows" and k: "fk c = Some k"
  shows "\<exists>!p. p \<in> set parents \<and> key p = k"
proof -
  from r c k have "present k key parents"
    by (auto simp: references_opt_def list_all_iff split: option.splits)
  then obtain p where p: "p \<in> set parents" "key p = k" by (auto simp: present_iff)
  show ?thesis
  proof (rule ex1I [of _ p])
    show "p \<in> set parents \<and> key p = k" using p by simp
  next
    fix p' assume "p' \<in> set parents \<and> key p' = k"
    with unique_inj [OF u _ p(1), of p'] p(2) show "p' = p" by simp
  qed
qed

lemma reachable_execute_all:
  "reachable d \<Longrightarrow> execute_all d sts = Some d' \<Longrightarrow> reachable d'"
proof (induction sts arbitrary: d)
  case Nil
  then show ?case by simp
next
  case (Cons st sts)
  then show ?case by (auto split: option.splits intro: reachable.step)
qed

lemmas example_rows =
  example_user_def example_category_def example_shop_def example_product_def
  example_order_def example_cart_def example_db_def empty_db_def

lemma example_db_statements:
  "execute_all empty_db
     [InsertUser example_user, InsertCategory example_category, InsertShop example_shop,
      InsertOrder example_order, InsertCart example_cart] = Some example_db"
  by (simp add: example_rows fresh_def present_def)

lemma example_db_reachable: "reachable example_db"
  using reachable_execute_all [OF reachable.initial example_db_statements] .

lemma example_insert_product:
  "execute example_db (InsertProduct example_product) =
     Some (example_db\<lparr>products := [example_product]\<rparr>)"
  by (simp add: example_rows fresh_def present_def)

lemma example_db_product_reachable: "reachable (example_db\<lparr>products := [example_product]\<rparr>)"
  using reachable.step [OF example_db_reachable example_insert_product] .

subsection \<open>Shops, products and orders\<close>

text \<open>
  C6. In every reachable state of the database no two shops have the same seller email,
  no two shops have the same name, and the seller email of each shop is the email of
  exactly one user. (A shop row has one seller email: the column is not optional.)
\<close>

theorem shop_seller_one_to_one:
  assumes "reachable d"
  shows "distinct (map Shop.sellerEmail (shops d))
       \<and> distinct (map Shop.name (shops d))
       \<and> (\<forall>s \<in> set (shops d). \<exists>!u. u \<in> set (users d) \<and> User.email u = Shop.sellerEmail s)"
proof -
  from reachable_constraints [OF assms]
  have u: "unique Shop.sellerEmail (shops d)" "unique Shop.name (shops d)"
    "unique User.email (users d)"
    and r: "references Shop.sellerEmail (shops d) User.email (users d)"
    by (simp_all add: constraints_def)
  show ?thesis
  proof (intro conjI ballI)
    show "distinct (map Shop.sellerEmail (shops d))" by (rule unique_distinct [OF u(1)])
    show "distinct (map Shop.name (shops d))" by (rule unique_distinct [OF u(2)])
    fix s assume "s \<in> set (shops d)"
    then show "\<exists>!u. u \<in> set (users d) \<and> User.email u = Shop.sellerEmail s"
      by (rule references_unique_parent [OF r u(3)])
  qed
qed

theorem shop_seller_one_to_one_witness:
  "reachable example_db
   \<and> example_shop \<in> set (shops example_db)
   \<and> distinct (map Shop.sellerEmail (shops example_db))
   \<and> distinct (map Shop.name (shops example_db))
   \<and> (\<exists>!u. u \<in> set (users example_db) \<and> User.email u = Shop.sellerEmail example_shop)"
proof -
  have m: "example_shop \<in> set (shops example_db)"
    by (simp add: example_db_def)
  note t = shop_seller_one_to_one [OF example_db_reachable]
  from t m have "\<exists>!u. u \<in> set (users example_db) \<and> User.email u = Shop.sellerEmail example_shop"
    by (elim conjE) (rule bspec)
  with t m example_db_reachable show ?thesis by simp
qed

text \<open>
  C7. In every reachable state of the database the shop name of each product is the name
  of an existing shop (of exactly one), its category slug is the slug of an existing
  category (of exactly one), and no two products have the same name. Hence, when the
  creation of a product succeeds, the new state has the old products and the new row,
  exactly one product row has its name, and its shop name and category slug are those
  of an existing shop and category.
\<close>

theorem product_references_shop_and_category:
  assumes "reachable d"
  shows "(\<forall>p \<in> set (products d).
            (\<exists>!s. s \<in> set (shops d) \<and> Shop.name s = Product.shopName p) \<and>
            (\<exists>!c. c \<in> set (categories d) \<and> Category.slug c = Product.categorySlug p))
       \<and> distinct (map Product.name (products d))
       \<and> (\<forall>p d'. execute d (InsertProduct p) = Some d' \<longrightarrow>
            reachable d' \<and>
            products d' = products d @ [p] \<and>
            length (filter (\<lambda>r. Product.name r = Product.name p) (products d')) = 1 \<and>
            (\<exists>!s. s \<in> set (shops d') \<and> Shop.name s = Product.shopName p) \<and>
            (\<exists>!c. c \<in> set (categories d') \<and> Category.slug c = Product.categorySlug p))"
proof -
  have shop: "\<exists>!s. s \<in> set (shops d) \<and> Shop.name s = Product.shopName p"
    and cat: "\<exists>!c. c \<in> set (categories d) \<and> Category.slug c = Product.categorySlug p"
    if "reachable d" "p \<in> set (products d)" for d p
  proof -
    from reachable_constraints [OF that(1)]
    have u: "unique Shop.name (shops d)" "unique Category.slug (categories d)"
      and r: "references Product.shopName (products d) Shop.name (shops d)"
        "references Product.categorySlug (products d) Category.slug (categories d)"
      by (simp_all add: constraints_def)
    show "\<exists>!s. s \<in> set (shops d) \<and> Shop.name s = Product.shopName p"
      by (rule references_unique_parent [OF r(1) u(1) that(2)])
    show "\<exists>!c. c \<in> set (categories d) \<and> Category.slug c = Product.categorySlug p"
      by (rule references_unique_parent [OF r(2) u(2) that(2)])
  qed
  have names: "distinct (map Product.name (products d))"
    using reachable_constraints [OF assms]
    by (simp add: constraints_def unique_distinct)
  have new: "reachable d' \<and>
            products d' = products d @ [p] \<and>
            length (filter (\<lambda>r. Product.name r = Product.name p) (products d')) = 1 \<and>
            (\<exists>!s. s \<in> set (shops d') \<and> Shop.name s = Product.shopName p) \<and>
            (\<exists>!c. c \<in> set (categories d') \<and> Category.slug c = Product.categorySlug p)"
    if e: "execute d (InsertProduct p) = Some d'" for p d'
  proof -
    have r: "reachable d'" using reachable.step [OF assms e] .
    from e have ps: "products d' = products d @ [p]"
      and fr: "fresh Product.name p (products d)"
      by (auto split: if_splits)
    from fr have "filter (\<lambda>r. Product.name r = Product.name p) (products d) = []"
      by (auto simp: fresh_def present_iff filter_empty_conv)
    then have one: "length (filter (\<lambda>r. Product.name r = Product.name p) (products d')) = 1"
      by (simp add: ps)
    from ps have m: "p \<in> set (products d')" by simp
    from r ps one shop [OF r m] cat [OF r m] show ?thesis by (intro conjI)
  qed
  show ?thesis
  proof (intro conjI ballI)
    fix p assume "p \<in> set (products d)"
    then show "\<exists>!s. s \<in> set (shops d) \<and> Shop.name s = Product.shopName p"
      by (rule shop [OF assms])
  next
    fix p assume "p \<in> set (products d)"
    then show "\<exists>!c. c \<in> set (categories d) \<and> Category.slug c = Product.categorySlug p"
      by (rule cat [OF assms])
  next
    show "distinct (map Product.name (products d))" by (rule names)
  next
    show "\<forall>p d'. execute d (InsertProduct p) = Some d' \<longrightarrow>
            reachable d' \<and>
            products d' = products d @ [p] \<and>
            length (filter (\<lambda>r. Product.name r = Product.name p) (products d')) = 1 \<and>
            (\<exists>!s. s \<in> set (shops d') \<and> Shop.name s = Product.shopName p) \<and>
            (\<exists>!c. c \<in> set (categories d') \<and> Category.slug c = Product.categorySlug p)"
    proof (intro allI impI)
      fix p d' assume "execute d (InsertProduct p) = Some d'"
      then show "reachable d' \<and>
            products d' = products d @ [p] \<and>
            length (filter (\<lambda>r. Product.name r = Product.name p) (products d')) = 1 \<and>
            (\<exists>!s. s \<in> set (shops d') \<and> Shop.name s = Product.shopName p) \<and>
            (\<exists>!c. c \<in> set (categories d') \<and> Category.slug c = Product.categorySlug p)"
        by (rule new)
    qed
  qed
qed

theorem product_references_shop_and_category_witness:
  "reachable (example_db\<lparr>products := [example_product]\<rparr>)
   \<and> example_product \<in> set (products (example_db\<lparr>products := [example_product]\<rparr>))
   \<and> (\<exists>!s. s \<in> set (shops (example_db\<lparr>products := [example_product]\<rparr>))
           \<and> Shop.name s = Product.shopName example_product)
   \<and> reachable example_db
   \<and> execute example_db (InsertProduct example_product)
       = Some (example_db\<lparr>products := [example_product]\<rparr>)
   \<and> length (filter (\<lambda>r. Product.name r = Product.name example_product)
        (products (example_db\<lparr>products := [example_product]\<rparr>))) = 1
   \<and> (\<exists>!c. c \<in> set (categories (example_db\<lparr>products := [example_product]\<rparr>))
           \<and> Category.slug c = Product.categorySlug example_product)"
proof -
  let ?d = "example_db\<lparr>products := [example_product]\<rparr>"
  have m: "example_product \<in> set (products ?d)" by simp
  note t1 = product_references_shop_and_category [OF example_db_product_reachable]
  note t2 = product_references_shop_and_category [OF example_db_reachable]
  note a = t1 [THEN conjunct1, THEN bspec, OF m, THEN conjunct1]
  note n = t2 [THEN conjunct2, THEN conjunct2, THEN spec, THEN spec, THEN mp,
               OF example_insert_product]
  note b = n [THEN conjunct2, THEN conjunct2, THEN conjunct1]
  note c = n [THEN conjunct2, THEN conjunct2, THEN conjunct2, THEN conjunct2]
  from example_db_product_reachable m a example_db_reachable example_insert_product b c
  show ?thesis by (intro conjI)
qed

text \<open>
  C8. In every reachable state of the database no two orders have the same payment id,
  the user email of each order is the email of exactly one user, and a line-item with an
  order id belongs to exactly one order, so that the line-items of different orders are
  disjoint. A line-item carries its own copy of the name, price, variant, quantity and
  image of the product: deleting the product leaves the line-items as they are.
\<close>

theorem order_owns_line_items:
  assumes "reachable d"
  shows "distinct (map Order.paymentId (orders d))
       \<and> (\<forall>r \<in> set (orders d). \<exists>!u. u \<in> set (users d) \<and> User.email u = Order.userEmail r)
       \<and> (\<forall>c \<in> set (order_products d). \<forall>k. Cart.orderId c = Some k \<longrightarrow>
            (\<exists>!r. r \<in> set (orders d) \<and> Order.id r = k))
       \<and> (\<forall>r \<in> set (orders d). \<forall>r' \<in> set (orders d). r \<noteq> r' \<longrightarrow>
            set (line_items d r) \<inter> set (line_items d r') = {})
       \<and> (\<forall>k d'. execute d (DeleteProduct k) = Some d' \<longrightarrow>
            (\<forall>r \<in> set (orders d').
               map snapshot (line_items d' r) = map snapshot (line_items d r)))"
proof -
  from reachable_constraints [OF assms]
  have u: "unique Order.paymentId (orders d)" "unique User.email (users d)"
    "unique Order.id (orders d)"
    and r: "references Order.userEmail (orders d) User.email (users d)"
    and ro: "references_opt Cart.orderId (order_products d) Order.id (orders d)"
    by (simp_all add: constraints_def)
  have disj: "set (line_items d a) \<inter> set (line_items d b) = {}"
    if "a \<in> set (orders d)" "b \<in> set (orders d)" "a \<noteq> b" for a b
  proof -
    from unique_inj [OF u(3) that(1,2)] that(3) have "Order.id a \<noteq> Order.id b" by blast
    then show ?thesis by (auto simp: line_items_def)
  qed
  have del: "map snapshot (line_items d' x) = map snapshot (line_items d x)"
    if "execute d (DeleteProduct k) = Some d'" for k d' x
    using that by (auto simp: line_items_def split: if_splits)
  show ?thesis
  proof (intro conjI ballI allI impI)
    show "distinct (map Order.paymentId (orders d))" by (rule unique_distinct [OF u(1)])
  next
    fix x assume "x \<in> set (orders d)"
    then show "\<exists>!u. u \<in> set (users d) \<and> User.email u = Order.userEmail x"
      by (rule references_unique_parent [OF r u(2)])
  next
    fix c k assume "c \<in> set (order_products d)" "Cart.orderId c = Some k"
    then show "\<exists>!r. r \<in> set (orders d) \<and> Order.id r = k"
      by (rule references_opt_unique_parent [OF ro u(3)])
  next
    fix a b assume "a \<in> set (orders d)" "b \<in> set (orders d)" "a \<noteq> b"
    then show "set (line_items d a) \<inter> set (line_items d b) = {}" by (rule disj)
  next
    fix k d' x assume "execute d (DeleteProduct k) = Some d'"
    then show "map snapshot (line_items d' x) = map snapshot (line_items d x)" by (rule del)
  qed
qed

theorem order_owns_line_items_witness:
  "reachable example_db
   \<and> example_order \<in> set (orders example_db)
   \<and> example_cart \<in> set (order_products example_db)
   \<and> Cart.orderId example_cart = Some ''o1''
   \<and> distinct (map Order.paymentId (orders example_db))
   \<and> (\<exists>!u. u \<in> set (users example_db) \<and> User.email u = Order.userEmail example_order)
   \<and> (\<exists>!r. r \<in> set (orders example_db) \<and> Order.id r = ''o1'')
   \<and> line_items example_db example_order = [example_cart]
   \<and> snapshot example_cart =
       (''Desk lamp'', Finite 25, ''black'', 2, ''https://i.ibb.co/a.png'')"
proof -
  have m: "example_order \<in> set (orders example_db)"
    "example_cart \<in> set (order_products example_db)"
    "Cart.orderId example_cart = Some ''o1''"
    by (simp_all add: example_db_def example_cart_def)
  have l: "line_items example_db example_order = [example_cart]"
    "snapshot example_cart = (''Desk lamp'', Finite 25, ''black'', 2, ''https://i.ibb.co/a.png'')"
    by (simp_all add: line_items_def snapshot_def example_rows)
  note t = order_owns_line_items [OF example_db_reachable]
  note d = t [THEN conjunct1]
  note a = t [THEN conjunct2, THEN conjunct1, THEN bspec, OF m(1)]
  note b = t [THEN conjunct2, THEN conjunct2, THEN conjunct1, THEN bspec, OF m(2),
              THEN spec, THEN mp, OF m(3)]
  from example_db_reachable m d a b l show ?thesis by (intro conjI)
qed

end
